theory Spec2Isabelle
  imports Main "HOL-Library.Word"
begin

section \<open>Data model of the proposals endpoint\<close>

text \<open>
  The embedding follows \<^verbatim>\<open>tequilapi/endpoints/proposals.go\<close>. Go strings are byte
  sequences (\<^typ>\<open>string\<close>), \<^verbatim>\<open>uint64\<close> is a 64-bit word, \<^verbatim>\<open>int\<close> values are only
  copied and are kept as \<^typ>\<open>int\<close>, a nil-able pointer is an \<^typ>\<open>'a option\<close>.
  Record fields carry a prefix where two Go structs use the same field name.
\<close>

type_synonym uint64 = "64 word"

text \<open>
  A Go slice is either nil or a (possibly empty) sequence; the difference is what the JSON
  encoder turns into \<^verbatim>\<open>null\<close> or \<^verbatim>\<open>[]\<close>. \<open>append_slice\<close> is Go's \<^verbatim>\<open>append\<close>
  with one element, \<open>elems\<close> is what a \<^verbatim>\<open>range\<close> loop visits.
\<close>

datatype 'a slice = NilSlice | Slice "'a list"

fun elems :: "'a slice \<Rightarrow> 'a list" where
  "elems NilSlice = []"
| "elems (Slice xs) = xs"

fun append_slice :: "'a slice \<Rightarrow> 'a \<Rightarrow> 'a slice" where
  "append_slice NilSlice x = Slice [x]"
| "append_slice (Slice xs) x = Slice (xs @ [x])"

text \<open>
  Modelled from the spec: the types of the packages \<^verbatim>\<open>market\<close>, \<^verbatim>\<open>money\<close>,
  \<^verbatim>\<open>quality\<close> and \<^verbatim>\<open>proposal\<close> (the proposal with its location, price, payment
  rate and access policies, the metric record with its proposal id and connect counts, and
  the filter), whose declarations are not in the files at hand. The fields are those of the
  data model of the specification that \<^verbatim>\<open>proposals.go\<close> reads or writes: a
  \<open>ServiceProposal\<close> holds the fields that \<^verbatim>\<open>proposalToRes\<close> copies and the values its
  getters \<^verbatim>\<open>GetLocation\<close>, \<^verbatim>\<open>GetType\<close>, \<^verbatim>\<open>GetPrice\<close> and \<^verbatim>\<open>GetRate\<close>
  return. \<open>PerTime\<close> is a \<^verbatim>\<open>time.Duration\<close>, a signed count of nanoseconds.
\<close>

record Location =
  loc_Continent :: string
  loc_Country :: string
  loc_City :: string
  loc_ASN :: int
  loc_ISP :: string
  loc_NodeType :: string

record Money =
  Amount :: uint64
  Currency :: string

record PaymentRate =
  PerTime :: int
  PerByte :: uint64

record AccessPolicy =
  ap_ID :: string
  ap_Source :: string

record ServiceProposal =
  p_ID :: int
  p_ProviderID :: string
  p_ServiceType :: string
  p_Location :: Location
  p_AccessPolicies :: "AccessPolicy list option"
  p_PaymentType :: string
  p_Price :: Money
  p_Rate :: PaymentRate

record ProposalID =
  pid_ProviderID :: string
  pid_ServiceType :: string

record ConnectCount =
  Success :: int
  Fail :: int
  Timeout :: int

record ConnectMetric =
  m_ProposalID :: ProposalID
  m_ConnectCount :: ConnectCount

record Filter =
  f_ProviderID :: string
  f_ServiceType :: string
  f_AccessPolicyID :: string
  f_AccessPolicySource :: string
  LowerGBPriceBound :: "uint64 option"
  UpperGBPriceBound :: "uint64 option"
  LowerTimePriceBound :: "uint64 option"
  UpperTimePriceBound :: "uint64 option"
  ExcludeUnsupported :: bool

subsection \<open>The wire representation\<close>

record locationRes =
  Continent :: string
  Country :: string
  City :: string
  ASN :: int
  ISP :: string
  NodeType :: string

record serviceDefinitionRes =
  LocationOriginate :: locationRes

record metricsRes =
  ConnectCount :: ConnectCount

record paymentRateRes =
  PerSeconds :: uint64
  PerBytes :: uint64

record paymentMethodRes =
  Type :: string
  Price :: Money
  Rate :: paymentRateRes

record proposalDTO =
  ID :: int
  ProviderID :: string
  ServiceType :: string
  ServiceDefinition :: serviceDefinitionRes
  Metrics :: "metricsRes option"
  AccessPolicies :: "AccessPolicy list option"
  PaymentMethod :: paymentMethodRes

record proposalsRes =
  Proposals :: "proposalDTO slice"

section \<open>The query translator\<close>

text \<open>
  \<^verbatim>\<open>req.URL.Query()\<close> is a \<^verbatim>\<open>url.Values\<close>, a map from a key to the list of its values;
  \<^verbatim>\<open>Get\<close> returns the first value of the key, and the empty string when there is none.
\<close>

type_synonym Values = "string \<rightharpoonup> string list"

definition Get :: "Values \<Rightarrow> string \<Rightarrow> string" where
  "Get v key = (case v key of None \<Rightarrow> [] | Some [] \<Rightarrow> [] | Some (x # _) \<Rightarrow> x)"

text \<open>
  \<^verbatim>\<open>strconv.ParseUint(s, 10, 64)\<close> belongs to the Go standard library, not to the
  repository; the model follows its loop. Its errors are \<^verbatim>\<open>*strconv.NumError\<close> values
  holding the function name, the offending input and \<^verbatim>\<open>ErrSyntax\<close> or \<^verbatim>\<open>ErrRange\<close>.
  The empty string is a syntax error. The loop reads the bytes from the left: a byte that is
  no decimal digit (a letter counts as a digit of 10 or more, which base 10 refuses) is a
  syntax error with value 0; a value that leaves 64 bits is a range error with value
  \<open>2^64 - 1\<close>, found either before the multiplication (\<open>n \<ge> cutoff\<close>) or by the sum
  wrapping around. The accumulator is a \<^verbatim>\<open>uint64\<close>, as in Go.
  Errors that reach the endpoint from the repository are opaque (\<open>OtherError\<close>).
\<close>

datatype numErr = ErrSyntax | ErrRange

datatype error = NumError string string numErr | OtherError string

definition maxUint64 :: uint64 where
  "maxUint64 = - 1"

definition cutoff :: uint64 where
  "cutoff = maxUint64 div 10 + 1"

definition isDigit :: "char \<Rightarrow> bool" where
  "isDigit c = (48 \<le> (of_char c :: nat) \<and> (of_char c :: nat) \<le> 57)"

definition digitVal :: "char \<Rightarrow> uint64" where
  "digitVal c = word_of_nat (of_char c - 48)"

fun parseLoop :: "uint64 \<Rightarrow> string \<Rightarrow> uint64 \<times> numErr option" where
  "parseLoop n [] = (n, None)"
| "parseLoop n (c # cs) =
     (if \<not> isDigit c then (0, Some ErrSyntax)
      else if n \<ge> cutoff then (maxUint64, Some ErrRange)
      else let n' = n * 10; n1 = n' + digitVal c in
        if n1 < n' \<or> n1 > maxUint64 then (maxUint64, Some ErrRange)
        else parseLoop n1 cs)"

definition ParseUint :: "string \<Rightarrow> uint64 \<times> error option" where
  "ParseUint s =
     (if s = [] then (0, Some (NumError ''ParseUint'' s ErrSyntax))
      else case parseLoop 0 s of
        (n, None) \<Rightarrow> (n, None)
      | (n, Some e) \<Rightarrow> (n, Some (NumError ''ParseUint'' s e)))"

text \<open>
  \<^verbatim>\<open>parsePriceBound\<close> returns a pointer and an error. An empty value gives
  \<^verbatim>\<open>(nil, nil)\<close>; otherwise the pointer holds what \<^verbatim>\<open>ParseUint\<close> returned, also when
  the error is set.
\<close>

definition parsePriceBound :: "Values \<Rightarrow> string \<Rightarrow> uint64 option \<times> error option" where
  "parsePriceBound req key =
     (let bound = Get req key in
      if bound = [] then (None, None)
      else let (upperPriceBound, err) = ParseUint (Get req key) in (Some upperPriceBound, err))"

section \<open>The DTO projection\<close>

text \<open>
  \<^verbatim>\<open>proposalToRes\<close> copies the proposal field by field. The rate per time is
  \<^verbatim>\<open>uint64(d.Seconds())\<close>: \<^verbatim>\<open>Duration.Seconds\<close> of the Go standard library computes a
  \<^verbatim>\<open>float64\<close>, which the conversion cuts to an integer. That floating-point computation
  is the parameter \<open>secs\<close> of the projection. The result is a fresh object whose
  \<^verbatim>\<open>Metrics\<close> pointer is nil.
\<close>

definition proposalToRes :: "(int \<Rightarrow> uint64) \<Rightarrow> ServiceProposal \<Rightarrow> proposalDTO" where
  "proposalToRes secs p =
     \<lparr> ID = p_ID p,
       ProviderID = p_ProviderID p,
       ServiceType = p_ServiceType p,
       ServiceDefinition = \<lparr> LocationOriginate = \<lparr>
           Continent = loc_Continent (p_Location p),
           Country = loc_Country (p_Location p),
           City = loc_City (p_Location p),
           ASN = loc_ASN (p_Location p),
           ISP = loc_ISP (p_Location p),
           NodeType = loc_NodeType (p_Location p) \<rparr> \<rparr>,
       Metrics = None,
       AccessPolicies = p_AccessPolicies p,
       PaymentMethod = \<lparr>
           Type = p_PaymentType p,
           Price = p_Price p,
           Rate = \<lparr> PerSeconds = secs (PerTime (p_Rate p)), PerBytes = PerByte (p_Rate p) \<rparr> \<rparr> \<rparr>"

section \<open>The quality correlator\<close>

text \<open>
  \<^verbatim>\<open>addProposalMetrics\<close> first fills \<^verbatim>\<open>metricsMap\<close>, a Go map from strings to metric
  records, in the order of the slice; the key of a record is the provider id followed
  directly by the service type. It then looks every proposal up under the key built the same
  way and sets its \<^verbatim>\<open>Metrics\<close> pointer on a hit. The proposals are pointers to the
  objects \<^verbatim>\<open>proposalToRes\<close> has just allocated, one per element, so the mutation through
  them is the update of the element; the function returns nothing and cannot fail.
\<close>

definition metricKey :: "ConnectMetric \<Rightarrow> string" where
  "metricKey m = pid_ProviderID (m_ProposalID m) @ pid_ServiceType (m_ProposalID m)"

definition proposalKey :: "proposalDTO \<Rightarrow> string" where
  "proposalKey p = ProviderID p @ ServiceType p"

definition metricsMap :: "ConnectMetric list \<Rightarrow> (string \<rightharpoonup> ConnectMetric)" where
  "metricsMap metrics = foldl (\<lambda>mm m. mm(metricKey m \<mapsto> m)) Map.empty metrics"

definition attachMetrics :: "(string \<rightharpoonup> ConnectMetric) \<Rightarrow> proposalDTO \<Rightarrow> proposalDTO" where
  "attachMetrics mm p =
     (case mm (proposalKey p) of
        Some mc \<Rightarrow> p\<lparr>Metrics := Some \<lparr>ConnectCount = m_ConnectCount mc\<rparr>\<rparr>
      | None \<Rightarrow> p)"

definition addProposalMetrics :: "proposalDTO slice \<Rightarrow> ConnectMetric slice \<Rightarrow> proposalDTO slice" where
  "addProposalMetrics proposals metrics =
     (let mm = metricsMap (elems metrics) in
      case proposals of
        NilSlice \<Rightarrow> NilSlice
      | Slice ps \<Rightarrow> Slice (map (attachMetrics mm) ps))"

section \<open>The endpoint\<close>

text \<open>
  The endpoint holds its two collaborators. \<^verbatim>\<open>Proposals\<close> of the repository returns a slice
  and an error; \<^verbatim>\<open>ProposalsMetrics\<close> of the quality finder returns a slice. What the handler
  does is the sequence of its calls to the outside: to the repository, to the quality finder,
  and to the helpers \<^verbatim>\<open>utils.SendError\<close> and \<^verbatim>\<open>utils.WriteAsJSON\<close> that write the
  response. \<open>List\<close> returns that sequence, each call with its arguments.
\<close>

record proposalsEndpoint =
  proposalRepository :: "Filter \<Rightarrow> ServiceProposal slice \<times> error option"
  qualityProvider :: "ConnectMetric slice"

datatype event =
    Repository_Proposals Filter
  | QualityFinder_ProposalsMetrics
  | SendError error nat
  | WriteAsJSON proposalsRes

definition StatusBadRequest :: nat where
  "StatusBadRequest = 400"

definition StatusInternalServerError :: nat where
  "StatusInternalServerError = 500"

definition List :: "(int \<Rightarrow> uint64) \<Rightarrow> proposalsEndpoint \<Rightarrow> Values \<Rightarrow> event list" where
  "List secs pe req =
     (let fetchConnectCounts = Get req ''fetch_connect_counts'' in
      case parsePriceBound req ''upper_time_price_bound'' of
        (_, Some err) \<Rightarrow> [SendError err StatusBadRequest]
      | (upperTimePriceBound, None) \<Rightarrow>
      (case parsePriceBound req ''lower_time_price_bound'' of
        (_, Some err) \<Rightarrow> [SendError err StatusBadRequest]
      | (lowerTimePriceBound, None) \<Rightarrow>
      (case parsePriceBound req ''upper_gb_price_bound'' of
        (_, Some err) \<Rightarrow> [SendError err StatusBadRequest]
      | (upperGBPriceBound, None) \<Rightarrow>
      (case parsePriceBound req ''lower_gb_price_bound'' of
        (_, Some err) \<Rightarrow> [SendError err StatusBadRequest]
      | (lowerGBPriceBound, None) \<Rightarrow>
      (let flt = \<lparr> f_ProviderID = Get req ''provider_id'',
                   f_ServiceType = Get req ''service_type'',
                   f_AccessPolicyID = Get req ''access_policy_id'',
                   f_AccessPolicySource = Get req ''access_policy_source'',
                   LowerGBPriceBound = lowerGBPriceBound,
                   UpperGBPriceBound = upperGBPriceBound,
                   LowerTimePriceBound = lowerTimePriceBound,
                   UpperTimePriceBound = upperTimePriceBound,
                   ExcludeUnsupported = True \<rparr>
       in Repository_Proposals flt #
         (case proposalRepository pe flt of
            (_, Some err) \<Rightarrow> [SendError err StatusInternalServerError]
          | (proposals, None) \<Rightarrow>
            (let res = \<lparr> Proposals =
                   foldl (\<lambda>r p. append_slice r (proposalToRes secs p)) (Slice []) (elems proposals) \<rparr>
             in if fetchConnectCounts = ''true''
                then [QualityFinder_ProposalsMetrics,
                      WriteAsJSON (res\<lparr>Proposals := addProposalMetrics (Proposals res) (qualityProvider pe)\<rparr>)]
                else [WriteAsJSON res])))))))"

section \<open>Observing a run of the handler\<close>

text \<open>
  The notions the statements below are written in. \<open>boundKeys\<close> lists the four price-bound
  parameters in the order \<open>List\<close> parses them; \<open>firstBoundError\<close> is the error of the first of
  them that fails, if any; \<open>requestFilter\<close> is the filter literal of \<open>List\<close> with the parsed
  bounds put in. \<open>repositoryCalls\<close> and \<open>metricsCalls\<close> read the calls to the two collaborators
  off a run.
\<close>

definition boundKeys :: "string list" where
  "boundKeys = [''upper_time_price_bound'', ''lower_time_price_bound'',
                ''upper_gb_price_bound'', ''lower_gb_price_bound'']"

definition firstBoundError :: "Values \<Rightarrow> error option" where
  "firstBoundError req =
     (case filter (\<lambda>k. snd (parsePriceBound req k) \<noteq> None) boundKeys of
        [] \<Rightarrow> None
      | k # _ \<Rightarrow> snd (parsePriceBound req k))"

definition requestFilter :: "Values \<Rightarrow> Filter" where
  "requestFilter req =
     \<lparr> f_ProviderID = Get req ''provider_id'',
       f_ServiceType = Get req ''service_type'',
       f_AccessPolicyID = Get req ''access_policy_id'',
       f_AccessPolicySource = Get req ''access_policy_source'',
       LowerGBPriceBound = fst (parsePriceBound req ''lower_gb_price_bound''),
       UpperGBPriceBound = fst (parsePriceBound req ''upper_gb_price_bound''),
       LowerTimePriceBound = fst (parsePriceBound req ''lower_time_price_bound''),
       UpperTimePriceBound = fst (parsePriceBound req ''upper_time_price_bound''),
       ExcludeUnsupported = True \<rparr>"

fun repositoryCalls :: "event list \<Rightarrow> Filter list" where
  "repositoryCalls [] = []"
| "repositoryCalls (Repository_Proposals f # t) = f # repositoryCalls t"
| "repositoryCalls (_ # t) = repositoryCalls t"

definition metricsCalls :: "event list \<Rightarrow> nat" where
  "metricsCalls t = count_list t QualityFinder_ProposalsMetrics"

text \<open>
  What it means for a string to be a base-10 unsigned 64-bit integer, apart from the parser:
  it is not empty, all its bytes are decimal digits, and its value is below \<open>2^64\<close>.
\<close>

fun decimalFrom :: "nat \<Rightarrow> string \<Rightarrow> nat" where
  "decimalFrom a [] = a"
| "decimalFrom a (c # cs) = decimalFrom (10 * a + (of_char c - 48)) cs"

definition isUint64Decimal :: "string \<Rightarrow> bool" where
  "isUint64Decimal s \<longleftrightarrow> s \<noteq> [] \<and> list_all isDigit s \<and> decimalFrom 0 s < 2 ^ 64"

text \<open>
  The pair that identifies a proposal, and the condition under which the keys of the
  correlator keep the records of other pairs away from a list of proposals: a record whose
  key is the key of a proposal is a record of that proposal's pair.
\<close>

definition proposalPair :: "ServiceProposal \<Rightarrow> ProposalID" where
  "proposalPair p = \<lparr>pid_ProviderID = p_ProviderID p, pid_ServiceType = p_ServiceType p\<rparr>"

definition unaliased :: "ConnectMetric list \<Rightarrow> ServiceProposal list \<Rightarrow> bool" where
  "unaliased ms ps \<longleftrightarrow>
     (\<forall>m\<in>set ms. \<forall>p\<in>set ps.
        metricKey m = p_ProviderID p @ p_ServiceType p \<longrightarrow> m_ProposalID m = proposalPair p)"

text \<open>
  Values for the examples: a conversion of durations to whole seconds by integer division, a
  proposal, metric records, and endpoints whose collaborators return fixed answers. No general
  statement depends on them.
\<close>

definition exampleSecs :: "int \<Rightarrow> uint64" where
  "exampleSecs d = word_of_int (d div 1000000000)"

definition baseProposal :: ServiceProposal where
  "baseProposal =
     \<lparr> p_ID = 1, p_ProviderID = ''0xP1'', p_ServiceType = ''openvpn'',
       p_Location = \<lparr> loc_Continent = ''EU'', loc_Country = ''NL'', loc_City = ''Amsterdam'',
                      loc_ASN = 1, loc_ISP = ''isp'', loc_NodeType = ''residential'' \<rparr>,
       p_AccessPolicies = None,
       p_PaymentType = ''BYTES_TRANSFERRED_WITH_TIME'',
       p_Price = \<lparr> Amount = 50000, Currency = ''MYST'' \<rparr>,
       p_Rate = \<lparr> PerTime = 60000000000, PerByte = 7669584 \<rparr> \<rparr>"

definition dtoOf :: "string \<Rightarrow> string \<Rightarrow> proposalDTO" where
  "dtoOf provider service =
     proposalToRes exampleSecs (baseProposal\<lparr>p_ProviderID := provider, p_ServiceType := service\<rparr>)"

definition metricOf :: "string \<Rightarrow> string \<Rightarrow> int \<Rightarrow> ConnectMetric" where
  "metricOf provider service n =
     \<lparr> m_ProposalID = \<lparr> pid_ProviderID = provider, pid_ServiceType = service \<rparr>,
       m_ConnectCount = \<lparr> Success = n, Fail = 0, Timeout = 0 \<rparr> \<rparr>"

definition emptyEndpoint :: proposalsEndpoint where
  "emptyEndpoint = \<lparr> proposalRepository = (\<lambda>_. (NilSlice, None)), qualityProvider = NilSlice \<rparr>"

definition servingEndpoint :: proposalsEndpoint where
  "servingEndpoint =
     \<lparr> proposalRepository = (\<lambda>_. (Slice [baseProposal], None)),
       qualityProvider = Slice [metricOf ''0xP1'' ''openvpn'' 5] \<rparr>"

definition failingEndpoint :: proposalsEndpoint where
  "failingEndpoint =
     \<lparr> proposalRepository = (\<lambda>_. (Slice [baseProposal], Some (OtherError ''repository down''))),
       qualityProvider = Slice [metricOf ''0xP1'' ''openvpn'' 5] \<rparr>"

definition aliasingEndpoint :: proposalsEndpoint where
  "aliasingEndpoint =
     \<lparr> proposalRepository =
         (\<lambda>_. (Slice [baseProposal\<lparr>p_ProviderID := ''a'', p_ServiceType := ''bc''\<rparr>], None)),
       qualityProvider = Slice [metricOf ''ab'' ''c'' 5] \<rparr>"

section \<open>The parser accepts the decimal 64-bit integers\<close>

lemma decimalFrom_ge: "a \<le> decimalFrom a s"
proof (induction s arbitrary: a)
  case Nil
  then show ?case by simp
next
  case (Cons c cs)
  have "a \<le> 10 * a + (of_char c - 48)" by simp
  also have "\<dots> \<le> decimalFrom (10 * a + (of_char c - 48)) cs" by (rule Cons.IH)
  finally show ?case by simp
qed

lemma unat_cutoff: "unat cutoff = 1844674407370955162"
  by (simp add: cutoff_def maxUint64_def)

lemma digit_small: "isDigit c \<Longrightarrow> (of_char c :: nat) - 48 < 10"
  by (auto simp: isDigit_def)

lemma unat_digitVal: "isDigit c \<Longrightarrow> unat (digitVal c) = of_char c - 48"
  using digit_small[of c] by (simp add: digitVal_def unat_of_nat)

text \<open>One round of the loop below the cutoff: the multiplication is exact, and the sum wraps
  around exactly when the value leaves 64 bits, which is what the test \<open>n1 < n\<close> detects.\<close>

lemma step_no_overflow:
  fixes n dw :: uint64
  assumes "n < cutoff" and "unat dw = d" and "d < 10"
  shows "n * 10 + dw < n * 10 \<longleftrightarrow> 2 ^ 64 \<le> 10 * unat n + d"
    and "\<not> (n * 10 + dw < n * 10) \<Longrightarrow> unat (n * 10 + dw) = 10 * unat n + d"
proof -
  define a where "a = unat n"
  from assms(1) have n: "a < 1844674407370955162"
    by (simp add: word_less_nat_alt unat_cutoff a_def)
  then have m: "unat (n * 10) = 10 * a"
    by (simp add: unat_word_ariths a_def)
  have s: "unat (n * 10 + dw) = (10 * a + d) mod 2 ^ 64"
    by (simp add: unat_word_ariths(1) m assms(2))
  have less: "n * 10 + dw < n * 10 \<longleftrightarrow> (10 * a + d) mod 2 ^ 64 < 10 * a"
    by (simp add: word_less_nat_alt s m)
  show iff: "n * 10 + dw < n * 10 \<longleftrightarrow> 2 ^ 64 \<le> 10 * unat n + d"
  proof (cases "10 * a + d < (2 ^ 64 :: nat)")
    case True
    then show ?thesis unfolding less a_def [symmetric] by simp
  next
    case False
    with n assms(3) have "(10 * a + d) mod 2 ^ 64 = 10 * a + d - 2 ^ 64"
      by (simp add: mod_if)
    with False n assms(3) show ?thesis unfolding less a_def [symmetric] by simp
  qed
  show "unat (n * 10 + dw) = 10 * unat n + d" if "\<not> (n * 10 + dw < n * 10)"
    using that iff s by (simp add: a_def)
qed

lemma parseLoop_digits:
  "list_all isDigit s \<Longrightarrow>
   parseLoop n s =
     (if decimalFrom (unat n) s < 2 ^ 64 then (word_of_nat (decimalFrom (unat n) s), None)
      else (maxUint64, Some ErrRange))"
proof (induction s arbitrary: n)
  case Nil
  have "unat n < 2 ^ 64" using unsigned_less [of n] by simp
  then show ?case by simp
next
  case (Cons c cs)
  then have c: "isDigit c" and cs: "list_all isDigit cs" by simp_all
  show ?case
  proof (cases "n \<ge> cutoff")
    case True
    then have "1844674407370955162 \<le> unat n"
      by (simp add: word_le_nat_alt unat_cutoff)
    then have "2 ^ 64 \<le> 10 * unat n + (of_char c - 48)" by simp
    also have "\<dots> \<le> decimalFrom (10 * unat n + (of_char c - 48)) cs" by (rule decimalFrom_ge)
    finally show ?thesis using True c by simp
  next
    case False
    then have lt: "n < cutoff" by simp
    note st = step_no_overflow [OF lt unat_digitVal [OF c] digit_small [OF c]]
    show ?thesis
    proof (cases "n * 10 + digitVal c < n * 10")
      case True
      with st(1) have "2 ^ 64 \<le> 10 * unat n + (of_char c - 48)" by simp
      also have "\<dots> \<le> decimalFrom (10 * unat n + (of_char c - 48)) cs" by (rule decimalFrom_ge)
      finally show ?thesis using True False c by (simp add: Let_def)
    next
      case ov: False
      have le: "\<not> maxUint64 < n * 10 + digitVal c"
        by (simp add: maxUint64_def not_less)
      from ov le False c show ?thesis
        by (simp add: Let_def Cons.IH [OF cs] st(2) [OF ov])
    qed
  qed
qed

lemma parseLoop_nondigit:
  "\<not> list_all isDigit s \<Longrightarrow> snd (parseLoop n s) \<noteq> None"
  by (induction s arbitrary: n) (auto simp: Let_def)

lemma ParseUint_accepts_iff:
  "snd (ParseUint s) = None \<longleftrightarrow> isUint64Decimal s"
proof (cases "list_all isDigit s")
  case True
  then show ?thesis
    by (auto simp: ParseUint_def isUint64Decimal_def parseLoop_digits
        split: prod.splits option.splits if_splits)
next
  case False
  with parseLoop_nondigit [OF False, of 0] show ?thesis
    by (auto simp: ParseUint_def isUint64Decimal_def split: prod.splits option.splits)
qed

lemma ParseUint_value:
  "isUint64Decimal s \<Longrightarrow> ParseUint s = (word_of_nat (decimalFrom 0 s), None)"
  by (simp add: ParseUint_def isUint64Decimal_def parseLoop_digits)

lemma ParseUint_error_shape:
  "snd (ParseUint s) = Some e \<Longrightarrow> \<exists>kind. e = NumError ''ParseUint'' s kind"
  by (auto simp: ParseUint_def split: if_splits prod.splits option.splits)

lemma parsePriceBound_snd:
  "snd (parsePriceBound req k) = (if Get req k = [] then None else snd (ParseUint (Get req k)))"
  by (simp add: parsePriceBound_def Let_def split: prod.splits)

section \<open>The shape of a run\<close>

lemma foldl_append_slice:
  "foldl (\<lambda>r p. append_slice r (f p)) (Slice acc) xs = Slice (acc @ map f xs)"
  by (induction xs arbitrary: acc) auto

lemma addProposalMetrics_Slice:
  "addProposalMetrics (Slice ps) ms = Slice (map (attachMetrics (metricsMap (elems ms))) ps)"
  by (simp add: addProposalMetrics_def)

lemma firstBoundError_None:
  "firstBoundError req = None \<longleftrightarrow> (\<forall>k\<in>set boundKeys. snd (parsePriceBound req k) = None)"
  by (auto simp: firstBoundError_def boundKeys_def split: list.splits)

lemma firstBoundError_no_bounds:
  "\<forall>k\<in>set boundKeys. Get req k = [] \<Longrightarrow> firstBoundError req = None"
  by (simp add: firstBoundError_None parsePriceBound_snd)


text \<open>When the four bounds parse, the handler calls the repository with \<open>requestFilter\<close>,
  and what follows depends on the repository's answer and on the flag only.\<close>

lemma List_bounds_ok:
  assumes "firstBoundError req = None"
  shows "List secs pe req =
     Repository_Proposals (requestFilter req) #
     (case proposalRepository pe (requestFilter req) of
        (_, Some err) \<Rightarrow> [SendError err StatusInternalServerError]
      | (ps, None) \<Rightarrow>
          if Get req ''fetch_connect_counts'' = ''true''
          then [QualityFinder_ProposalsMetrics,
                WriteAsJSON \<lparr>Proposals = addProposalMetrics (Slice (map (proposalToRes secs) (elems ps))) (qualityProvider pe)\<rparr>]
          else [WriteAsJSON \<lparr>Proposals = Slice (map (proposalToRes secs) (elems ps))\<rparr>])"
  using assms unfolding firstBoundError_None
  by (auto simp: List_def boundKeys_def requestFilter_def Let_def foldl_append_slice
           split: prod.splits option.splits)

text \<open>When a bound fails, the handler sends that error with status 400 and does nothing else.\<close>

lemma List_bound_error:
  assumes "firstBoundError req = Some e"
  shows "List secs pe req = [SendError e StatusBadRequest]"
  using assms
  by (auto simp: List_def firstBoundError_def boundKeys_def Let_def
           split: prod.splits option.splits if_splits)

lemma repositoryCalls_List:
  "repositoryCalls (List secs pe req) =
     (if firstBoundError req = None then [requestFilter req] else [])"
proof (cases "firstBoundError req")
  case None
  then show ?thesis
    by (simp add: List_bounds_ok split: prod.splits option.splits)
next
  case (Some e)
  then show ?thesis
    by (simp add: List_bound_error)
qed

section \<open>The index of the correlator\<close>

lemma metricsMap_snoc:
  "metricsMap (ms @ [m]) = (metricsMap ms)(metricKey m \<mapsto> m)"
  by (simp add: metricsMap_def)

lemma metricsMap_last_record:
  assumes "\<forall>m'\<in>set ys. metricKey m' \<noteq> metricKey m"
  shows "metricsMap (xs @ m # ys) (metricKey m) = Some m"
  using assms
proof (induction ys rule: rev_induct)
  case Nil
  then show ?case by (simp add: metricsMap_snoc)
next
  case (snoc y ys)
  have "metricsMap (xs @ m # ys @ [y]) = (metricsMap (xs @ m # ys))(metricKey y \<mapsto> y)"
    using metricsMap_snoc [of "xs @ m # ys" y] by simp
  with snoc show ?case by auto
qed

lemma metricsMap_miss:
  "\<forall>m\<in>set ms. metricKey m \<noteq> k \<Longrightarrow> metricsMap ms k = None"
proof (induction ms rule: rev_induct)
  case Nil
  then show ?case by (simp add: metricsMap_def)
next
  case (snoc m ms)
  then show ?case by (auto simp: metricsMap_snoc)
qed

lemma metricsMap_last_filter:
  "metricsMap ms k =
     (case filter (\<lambda>m. metricKey m = k) ms of [] \<Rightarrow> None | f # fs \<Rightarrow> Some (last (f # fs)))"
proof (induction ms rule: rev_induct)
  case Nil
  then show ?case by (simp add: metricsMap_def)
next
  case (snoc x ms)
  then show ?case
    by (auto simp: metricsMap_snoc split: list.splits)
qed

lemma filter_key_pair:
  assumes "\<forall>m\<in>set ms. metricKey m = p_ProviderID p @ p_ServiceType p \<longrightarrow> m_ProposalID m = proposalPair p"
  shows "filter (\<lambda>m. metricKey m = p_ProviderID p @ p_ServiceType p) ms =
         filter (\<lambda>m. m_ProposalID m = proposalPair p) ms"
  using assms by (intro filter_cong) (auto simp: metricKey_def proposalPair_def)

lemma attachMetrics_projection:
  assumes "\<forall>m\<in>set ms. metricKey m = p_ProviderID p @ p_ServiceType p \<longrightarrow> m_ProposalID m = proposalPair p"
  shows "attachMetrics (metricsMap ms) (proposalToRes secs p) =
     (proposalToRes secs p)\<lparr>Metrics :=
        (case filter (\<lambda>m. m_ProposalID m = proposalPair p) ms of
           [] \<Rightarrow> None
         | f # fs \<Rightarrow> Some \<lparr>ConnectCount = m_ConnectCount (last (f # fs))\<rparr>)\<rparr>"
proof -
  have k: "proposalKey (proposalToRes secs p) = p_ProviderID p @ p_ServiceType p"
    by (simp add: proposalKey_def proposalToRes_def)
  have n: "(proposalToRes secs p)\<lparr>Metrics := None\<rparr> = proposalToRes secs p"
    by (simp add: proposalToRes_def)
  show ?thesis
    unfolding attachMetrics_def k metricsMap_last_filter filter_key_pair [OF assms]
    by (simp add: n split: list.splits)
qed

text \<open>A proposal whose key no record has is left as it is, and so is every proposal when
  the metrics slice is nil or empty.\<close>

lemma attachMetrics_miss:
  "\<forall>m\<in>set ms. metricKey m \<noteq> proposalKey p \<Longrightarrow> attachMetrics (metricsMap ms) p = p"
  by (simp add: attachMetrics_def metricsMap_miss)

section \<open>The join key\<close>

text \<open>
  Claim C1 asks that the key of the metrics index tells any two different pairs of provider
  id and service type apart. The key of \<open>addProposalMetrics\<close> is the provider id followed
  directly by the service type. The records for the pairs \<open>(ab, c)\<close> and \<open>(a, bc)\<close> are
  different and have the same key \<open>abc\<close>; it is also the key under which the proposal of the
  pair \<open>(a, bc)\<close> is looked up, and after both records are stored the index holds the record
  of \<open>(ab, c)\<close> there.
\<close>

theorem metricKey_aliases:
  "m_ProposalID (metricOf ''ab'' ''c'' 5) \<noteq> m_ProposalID (metricOf ''a'' ''bc'' 0) \<and>
   metricKey (metricOf ''ab'' ''c'' 5) = metricKey (metricOf ''a'' ''bc'' 0) \<and>
   metricKey (metricOf ''ab'' ''c'' 5) = proposalKey (dtoOf ''a'' ''bc'') \<and>
   metricsMap [metricOf ''a'' ''bc'' 0, metricOf ''ab'' ''c'' 5] (proposalKey (dtoOf ''a'' ''bc''))
     = Some (metricOf ''ab'' ''c'' 5)"
  by (simp add: metricOf_def metricKey_def proposalKey_def dtoOf_def proposalToRes_def metricsMap_def)

text \<open>Among records whose provider ids have the same length the key does tell the pairs apart.\<close>

theorem metricKey_inj_same_length:
  assumes "metricKey m1 = metricKey m2"
    and "length (pid_ProviderID (m_ProposalID m1)) = length (pid_ProviderID (m_ProposalID m2))"
  shows "m_ProposalID m1 = m_ProposalID m2"
  using assms by (cases "m_ProposalID m1"; cases "m_ProposalID m2") (simp add: metricKey_def)

theorem metricKey_inj_same_length_witness:
  "metricKey (metricOf ''0xP1'' ''openvpn'' 1) = metricKey (metricOf ''0xP1'' ''openvpn'' 2) \<and>
   length (pid_ProviderID (m_ProposalID (metricOf ''0xP1'' ''openvpn'' 1))) =
     length (pid_ProviderID (m_ProposalID (metricOf ''0xP1'' ''openvpn'' 2))) \<and>
   m_ProposalID (metricOf ''0xP1'' ''openvpn'' 1) = m_ProposalID (metricOf ''0xP1'' ''openvpn'' 2)"
proof -
  have a: "metricKey (metricOf ''0xP1'' ''openvpn'' 1) = metricKey (metricOf ''0xP1'' ''openvpn'' 2)"
    by (simp add: metricKey_def metricOf_def)
  have b: "length (pid_ProviderID (m_ProposalID (metricOf ''0xP1'' ''openvpn'' 1))) =
     length (pid_ProviderID (m_ProposalID (metricOf ''0xP1'' ''openvpn'' 2)))"
    by (simp add: metricOf_def)
  from a b metricKey_inj_same_length [OF a b] show ?thesis by blast
qed

section \<open>Malformed price bounds\<close>




text \<open>
  What \<open>parsePriceBound\<close> returns: nothing for an absent or empty value, the number for a
  base-10 unsigned 64-bit integer, and otherwise the error of \<open>ParseUint\<close> for that value
  together with a pointer that is not nil.
\<close>

theorem parsePriceBound_result:
  "(Get req k = [] \<longrightarrow> parsePriceBound req k = (None, None)) \<and>
   (isUint64Decimal (Get req k) \<longrightarrow>
      parsePriceBound req k = (Some (word_of_nat (decimalFrom 0 (Get req k))), None)) \<and>
   (Get req k \<noteq> [] \<and> \<not> isUint64Decimal (Get req k) \<longrightarrow>
      (\<exists>v kind. parsePriceBound req k = (Some v, Some (NumError ''ParseUint'' (Get req k) kind))))"
proof (intro conjI impI)
  assume "Get req k = []"
  then show "parsePriceBound req k = (None, None)"
    by (simp add: parsePriceBound_def)
next
  assume d: "isUint64Decimal (Get req k)"
  then have "Get req k \<noteq> []" by (simp add: isUint64Decimal_def)
  with ParseUint_value [OF d]
  show "parsePriceBound req k = (Some (word_of_nat (decimalFrom 0 (Get req k))), None)"
    by (simp add: parsePriceBound_def)
next
  assume a: "Get req k \<noteq> [] \<and> \<not> isUint64Decimal (Get req k)"
  then obtain e where e: "snd (ParseUint (Get req k)) = Some e"
    using ParseUint_accepts_iff [of "Get req k"] by auto
  from ParseUint_error_shape [OF e] obtain kind where "e = NumError ''ParseUint'' (Get req k) kind"
    by blast
  with a e show "\<exists>v kind. parsePriceBound req k = (Some v, Some (NumError ''ParseUint'' (Get req k) kind))"
    by (cases "ParseUint (Get req k)") (auto simp: parsePriceBound_def)
qed

theorem parsePriceBound_result_witness:
  "parsePriceBound Map.empty ''upper_gb_price_bound'' = (None, None) \<and>
   parsePriceBound [''upper_gb_price_bound'' \<mapsto> [''18446744073709551615'']] ''upper_gb_price_bound''
     = (Some (- 1), None) \<and>
   (\<exists>v kind. parsePriceBound [''upper_gb_price_bound'' \<mapsto> [''18446744073709551616'']] ''upper_gb_price_bound''
     = (Some v, Some (NumError ''ParseUint'' ''18446744073709551616'' kind)))"
proof -
  have a: "Get Map.empty ''upper_gb_price_bound'' = []"
    by (simp add: Get_def)
  have b: "isUint64Decimal (Get [''upper_gb_price_bound'' \<mapsto> [''18446744073709551615'']] ''upper_gb_price_bound'')"
    by (simp add: Get_def isUint64Decimal_def isDigit_def)
  have c: "Get [''upper_gb_price_bound'' \<mapsto> [''18446744073709551616'']] ''upper_gb_price_bound'' \<noteq> [] \<and>
     \<not> isUint64Decimal (Get [''upper_gb_price_bound'' \<mapsto> [''18446744073709551616'']] ''upper_gb_price_bound'')"
    by (simp add: Get_def isUint64Decimal_def isDigit_def)
  have v: "(word_of_nat (decimalFrom 0 ''18446744073709551615'') :: uint64) = - 1"
    by simp
  from parsePriceBound_result [of Map.empty "''upper_gb_price_bound''"] a
  have 1: "parsePriceBound Map.empty ''upper_gb_price_bound'' = (None, None)" by blast
  from parsePriceBound_result [of "[''upper_gb_price_bound'' \<mapsto> [''18446744073709551615'']]" "''upper_gb_price_bound''"] b
  have 2: "parsePriceBound [''upper_gb_price_bound'' \<mapsto> [''18446744073709551615'']] ''upper_gb_price_bound''
     = (Some (- 1), None)"
    by (simp add: Get_def v)
  from parsePriceBound_result [of "[''upper_gb_price_bound'' \<mapsto> [''18446744073709551616'']]" "''upper_gb_price_bound''"] c
  have 3: "\<exists>v kind. parsePriceBound [''upper_gb_price_bound'' \<mapsto> [''18446744073709551616'']] ''upper_gb_price_bound''
     = (Some v, Some (NumError ''ParseUint'' ''18446744073709551616'' kind))"
    by (simp add: Get_def)
  from 1 2 3 show ?thesis by blast
qed

section \<open>Correlation through the endpoint\<close>

text \<open>
  Claim C3 asks that a returned proposal whose pair is in no metric record has no metrics.
  With the flag set, a repository that returns the one proposal of the pair \<open>(a, bc)\<close> and a
  quality finder that returns the one record of the pair \<open>(ab, c)\<close> with five successes, the
  handler writes that proposal with the five successes attached: both keys are \<open>abc\<close>.
\<close>

theorem List_attaches_foreign_metrics:
  "List exampleSecs aliasingEndpoint [''fetch_connect_counts'' \<mapsto> [''true'']] =
     [Repository_Proposals (requestFilter [''fetch_connect_counts'' \<mapsto> [''true'']]),
      QualityFinder_ProposalsMetrics,
      WriteAsJSON \<lparr>Proposals = Slice
        [(dtoOf ''a'' ''bc'')\<lparr>Metrics := Some \<lparr>ConnectCount = \<lparr>Success = 5, Fail = 0, Timeout = 0\<rparr>\<rparr>\<rparr>]\<rparr>]"
proof -
  have "firstBoundError [''fetch_connect_counts'' \<mapsto> [''true'']] = None"
    by (rule firstBoundError_no_bounds) (simp add: boundKeys_def Get_def)
  then show ?thesis
    by (simp add: List_bounds_ok aliasingEndpoint_def Get_def addProposalMetrics_Slice
        attachMetrics_def metricsMap_def metricKey_def proposalKey_def metricOf_def dtoOf_def
        proposalToRes_def)
qed

text \<open>
  What the correlation does give. For a request with the flag set whose bounds parse and whose
  repository call returns no error, and when no metric record of another pair has the key of
  a returned proposal, the handler writes the projections of the returned proposals in their
  order, each with the connect counts of the last metric record of its own pair, and with no
  metrics when there is no such record.
\<close>

theorem List_correlation_unaliased:
  assumes "firstBoundError req = None"
    and "proposalRepository pe (requestFilter req) = (ps, None)"
    and "Get req ''fetch_connect_counts'' = ''true''"
    and "unaliased (elems (qualityProvider pe)) (elems ps)"
  shows "List secs pe req =
     [Repository_Proposals (requestFilter req), QualityFinder_ProposalsMetrics,
      WriteAsJSON \<lparr>Proposals = Slice (map (\<lambda>p. (proposalToRes secs p)\<lparr>Metrics :=
        (case filter (\<lambda>m. m_ProposalID m = proposalPair p) (elems (qualityProvider pe)) of
           [] \<Rightarrow> None
         | f # fs \<Rightarrow> Some \<lparr>ConnectCount = m_ConnectCount (last (f # fs))\<rparr>)\<rparr>) (elems ps))\<rparr>]"
proof -
  have "map (attachMetrics (metricsMap (elems (qualityProvider pe)))) (map (proposalToRes secs) (elems ps)) =
        map (\<lambda>p. (proposalToRes secs p)\<lparr>Metrics :=
        (case filter (\<lambda>m. m_ProposalID m = proposalPair p) (elems (qualityProvider pe)) of
           [] \<Rightarrow> None
         | f # fs \<Rightarrow> Some \<lparr>ConnectCount = m_ConnectCount (last (f # fs))\<rparr>)\<rparr>) (elems ps)"
    unfolding map_map
  proof (rule map_cong [OF refl])
    fix p assume "p \<in> set (elems ps)"
    with assms(4) have "\<forall>m\<in>set (elems (qualityProvider pe)).
        metricKey m = p_ProviderID p @ p_ServiceType p \<longrightarrow> m_ProposalID m = proposalPair p"
      by (simp add: unaliased_def)
    from attachMetrics_projection [OF this]
    show "(attachMetrics (metricsMap (elems (qualityProvider pe))) \<circ> proposalToRes secs) p =
      (proposalToRes secs p)\<lparr>Metrics :=
        (case filter (\<lambda>m. m_ProposalID m = proposalPair p) (elems (qualityProvider pe)) of
           [] \<Rightarrow> None
         | f # fs \<Rightarrow> Some \<lparr>ConnectCount = m_ConnectCount (last (f # fs))\<rparr>)\<rparr>"
      by simp
  qed
  with assms(1-3) show ?thesis
    by (simp add: List_bounds_ok addProposalMetrics_Slice)
qed

theorem List_correlation_unaliased_witness:
  "firstBoundError [''fetch_connect_counts'' \<mapsto> [''true'']] = None \<and>
   proposalRepository servingEndpoint (requestFilter [''fetch_connect_counts'' \<mapsto> [''true'']])
     = (Slice [baseProposal], None) \<and>
   Get [''fetch_connect_counts'' \<mapsto> [''true'']] ''fetch_connect_counts'' = ''true'' \<and>
   unaliased (elems (qualityProvider servingEndpoint)) (elems (Slice [baseProposal])) \<and>
   List exampleSecs servingEndpoint [''fetch_connect_counts'' \<mapsto> [''true'']] =
     [Repository_Proposals (requestFilter [''fetch_connect_counts'' \<mapsto> [''true'']]),
      QualityFinder_ProposalsMetrics,
      WriteAsJSON \<lparr>Proposals = Slice [(proposalToRes exampleSecs baseProposal)\<lparr>Metrics :=
         Some \<lparr>ConnectCount = \<lparr>Success = 5, Fail = 0, Timeout = 0\<rparr>\<rparr>\<rparr>]\<rparr>]"
proof -
  let ?req = "[''fetch_connect_counts'' \<mapsto> [''true'']]"
  have a: "firstBoundError ?req = None"
    by (rule firstBoundError_no_bounds) (simp add: boundKeys_def Get_def)
  have b: "proposalRepository servingEndpoint (requestFilter ?req) = (Slice [baseProposal], None)"
    by (simp add: servingEndpoint_def)
  have c: "Get ?req ''fetch_connect_counts'' = ''true''"
    by (simp add: Get_def)
  have d: "unaliased (elems (qualityProvider servingEndpoint)) (elems (Slice [baseProposal]))"
    by (simp add: unaliased_def servingEndpoint_def metricOf_def metricKey_def baseProposal_def
        proposalPair_def)
  from List_correlation_unaliased [OF a b c d, of exampleSecs]
  have "List exampleSecs servingEndpoint ?req =
     [Repository_Proposals (requestFilter ?req), QualityFinder_ProposalsMetrics,
      WriteAsJSON \<lparr>Proposals = Slice [(proposalToRes exampleSecs baseProposal)\<lparr>Metrics :=
         Some \<lparr>ConnectCount = \<lparr>Success = 5, Fail = 0, Timeout = 0\<rparr>\<rparr>\<rparr>]\<rparr>]"
    by (simp add: servingEndpoint_def metricOf_def baseProposal_def proposalPair_def)
  with a b c d show ?thesis by simp
qed

text \<open>A nil or empty metrics slice leaves every proposal as it is.\<close>

theorem addProposalMetrics_no_metrics:
  "elems ms = [] \<Longrightarrow> addProposalMetrics ps ms = ps"
  by (cases ps) (simp_all add: addProposalMetrics_def attachMetrics_def metricsMap_def map_idI)

theorem addProposalMetrics_no_metrics_witness:
  "elems (NilSlice :: ConnectMetric slice) = [] \<and>
   addProposalMetrics (Slice [dtoOf ''0xP1'' ''openvpn'']) NilSlice = Slice [dtoOf ''0xP1'' ''openvpn''] \<and>
   addProposalMetrics (Slice [dtoOf ''0xP1'' ''openvpn'']) (Slice []) = Slice [dtoOf ''0xP1'' ''openvpn'']"
  using addProposalMetrics_no_metrics [of NilSlice "Slice [dtoOf ''0xP1'' ''openvpn'']"]
    addProposalMetrics_no_metrics [of "Slice []" "Slice [dtoOf ''0xP1'' ''openvpn'']"]
  by simp

section \<open>Calls to the repository\<close>

text \<open>
  Claim C4, as the code has it. The handler calls the repository once when the four bounds
  parse and not at all when one of them fails, and never more than once. When the call
  returns an error, the run is that call followed by the error sent with status 500: nothing
  is written as JSON and the quality finder is not called, whatever slice came with the error.
\<close>

theorem List_repository_calls:
  "repositoryCalls (List secs pe req) =
     (if firstBoundError req = None then [requestFilter req] else []) \<and>
   (\<forall>e. firstBoundError req = None \<and> snd (proposalRepository pe (requestFilter req)) = Some e \<longrightarrow>
      List secs pe req =
        [Repository_Proposals (requestFilter req), SendError e StatusInternalServerError])"
  by (auto simp: repositoryCalls_List List_bounds_ok split: prod.splits)

theorem List_repository_calls_witness:
  "firstBoundError [''fetch_connect_counts'' \<mapsto> [''true'']] = None \<and>
   snd (proposalRepository failingEndpoint (requestFilter [''fetch_connect_counts'' \<mapsto> [''true'']]))
     = Some (OtherError ''repository down'') \<and>
   repositoryCalls (List exampleSecs failingEndpoint [''fetch_connect_counts'' \<mapsto> [''true'']])
     = [requestFilter [''fetch_connect_counts'' \<mapsto> [''true'']]] \<and>
   List exampleSecs failingEndpoint [''fetch_connect_counts'' \<mapsto> [''true'']] =
     [Repository_Proposals (requestFilter [''fetch_connect_counts'' \<mapsto> [''true'']]),
      SendError (OtherError ''repository down'') StatusInternalServerError]"
proof -
  have a: "firstBoundError [''fetch_connect_counts'' \<mapsto> [''true'']] = None"
    by (rule firstBoundError_no_bounds) (simp add: boundKeys_def Get_def)
  have b: "snd (proposalRepository failingEndpoint (requestFilter [''fetch_connect_counts'' \<mapsto> [''true'']]))
     = Some (OtherError ''repository down'')"
    by (simp add: failingEndpoint_def)
  from a b List_repository_calls [of exampleSecs failingEndpoint "[''fetch_connect_counts'' \<mapsto> [''true'']]"]
  show ?thesis by simp
qed

text \<open>A request with a malformed bound makes no call to the repository.\<close>

theorem List_bad_bound_no_repository_call:
  "length (repositoryCalls (List exampleSecs servingEndpoint [''upper_time_price_bound'' \<mapsto> [''abc'']])) = 0"
  by (simp add: List_def parsePriceBound_def Get_def ParseUint_def isDigit_def Let_def)

section \<open>The metrics flag\<close>




section \<open>The response envelope\<close>

text \<open>
  Claim C6. When the four bounds parse and the repository returns no error, the handler ends
  by writing an envelope whose \<^verbatim>\<open>Proposals\<close> is a slice that is not nil, with one element
  for each proposal of the repository; this holds for a nil and for an empty slice of the
  repository too, where the slice written is empty.
\<close>

theorem List_proposals_never_nil:
  assumes "firstBoundError req = None"
    and "proposalRepository pe (requestFilter req) = (ps, None)"
  shows "\<exists>ds. length ds = length (elems ps) \<and>
     (List secs pe req =
        [Repository_Proposals (requestFilter req), WriteAsJSON \<lparr>Proposals = Slice ds\<rparr>] \<or>
      List secs pe req =
        [Repository_Proposals (requestFilter req), QualityFinder_ProposalsMetrics,
         WriteAsJSON \<lparr>Proposals = Slice ds\<rparr>])"
  using assms by (simp add: List_bounds_ok addProposalMetrics_Slice)

theorem List_proposals_never_nil_witness:
  "firstBoundError Map.empty = None \<and>
   proposalRepository emptyEndpoint (requestFilter Map.empty) = (NilSlice, None) \<and>
   List exampleSecs emptyEndpoint Map.empty =
     [Repository_Proposals (requestFilter Map.empty), WriteAsJSON \<lparr>Proposals = Slice []\<rparr>]"
proof -
  have a: "firstBoundError Map.empty = None"
    by (rule firstBoundError_no_bounds) (simp add: Get_def)
  have b: "proposalRepository emptyEndpoint (requestFilter Map.empty) = (NilSlice, None)"
    by (simp add: emptyEndpoint_def)
  from List_proposals_never_nil [OF a b, of exampleSecs]
  have "List exampleSecs emptyEndpoint Map.empty =
     [Repository_Proposals (requestFilter Map.empty), WriteAsJSON \<lparr>Proposals = Slice []\<rparr>] \<or>
     List exampleSecs emptyEndpoint Map.empty =
     [Repository_Proposals (requestFilter Map.empty), QualityFinder_ProposalsMetrics,
      WriteAsJSON \<lparr>Proposals = Slice []\<rparr>]"
    by simp
  moreover have "metricsCalls (List exampleSecs emptyEndpoint Map.empty) = 0"
    by (simp add: List_bounds_ok [OF a] b metricsCalls_def Get_def)
  ultimately show ?thesis using a b by (auto simp: metricsCalls_def)
qed

section \<open>The filter sent to the repository\<close>

text \<open>
  Claim C8. Every filter the handler passes to the repository has \<^verbatim>\<open>ExcludeUnsupported\<close>
  set, whatever the request holds.
\<close>

theorem List_exclude_unsupported:
  "\<forall>flt\<in>set (repositoryCalls (List secs pe req)). ExcludeUnsupported flt"
  by (simp add: repositoryCalls_List requestFilter_def)

theorem List_exclude_unsupported_witness:
  "repositoryCalls (List exampleSecs servingEndpoint
      [''exclude_unsupported'' \<mapsto> [''false''], ''ExcludeUnsupported'' \<mapsto> [''false'']]) \<noteq> [] \<and>
   ExcludeUnsupported (hd (repositoryCalls (List exampleSecs servingEndpoint
      [''exclude_unsupported'' \<mapsto> [''false''], ''ExcludeUnsupported'' \<mapsto> [''false'']])))"
proof -
  let ?req = "[''exclude_unsupported'' \<mapsto> [''false''], ''ExcludeUnsupported'' \<mapsto> [''false'']]"
  have "firstBoundError ?req = None"
    by (rule firstBoundError_no_bounds) (simp add: boundKeys_def Get_def)
  then have ne: "repositoryCalls (List exampleSecs servingEndpoint ?req) \<noteq> []"
    by (simp add: repositoryCalls_List)
  then have "hd (repositoryCalls (List exampleSecs servingEndpoint ?req))
      \<in> set (repositoryCalls (List exampleSecs servingEndpoint ?req))"
    by simp
  with ne List_exclude_unsupported [of exampleSecs servingEndpoint ?req] show ?thesis
    by blast
qed

section \<open>A request without parameters\<close>

text \<open>
  Claim C9. For the request without parameters and a repository that returns no error, the
  handler calls the repository and writes the projections of the returned proposals, in their
  order and number, without calling the quality finder. The projection of a proposal has its
  id, provider id, service type, location, access policies, payment type, price and rate per
  byte; its rate per second is the conversion of the rate per time; its metrics are absent.
\<close>

theorem List_no_parameters:
  assumes "proposalRepository pe (requestFilter Map.empty) = (ps, None)"
  shows "List secs pe Map.empty =
      [Repository_Proposals (requestFilter Map.empty),
       WriteAsJSON \<lparr>Proposals = Slice (map (proposalToRes secs) (elems ps))\<rparr>] \<and>
    ID (proposalToRes secs p) = p_ID p \<and>
    ProviderID (proposalToRes secs p) = p_ProviderID p \<and>
    ServiceType (proposalToRes secs p) = p_ServiceType p \<and>
    LocationOriginate (ServiceDefinition (proposalToRes secs p)) =
      \<lparr> Continent = loc_Continent (p_Location p), Country = loc_Country (p_Location p),
        City = loc_City (p_Location p), ASN = loc_ASN (p_Location p),
        ISP = loc_ISP (p_Location p), NodeType = loc_NodeType (p_Location p) \<rparr> \<and>
    AccessPolicies (proposalToRes secs p) = p_AccessPolicies p \<and>
    Type (PaymentMethod (proposalToRes secs p)) = p_PaymentType p \<and>
    Price (PaymentMethod (proposalToRes secs p)) = p_Price p \<and>
    PerSeconds (Rate (PaymentMethod (proposalToRes secs p))) = secs (PerTime (p_Rate p)) \<and>
    PerBytes (Rate (PaymentMethod (proposalToRes secs p))) = PerByte (p_Rate p) \<and>
    Metrics (proposalToRes secs p) = None"
proof -
  have "firstBoundError Map.empty = None"
    by (rule firstBoundError_no_bounds) (simp add: Get_def)
  then have "List secs pe Map.empty =
      [Repository_Proposals (requestFilter Map.empty),
       WriteAsJSON \<lparr>Proposals = Slice (map (proposalToRes secs) (elems ps))\<rparr>]"
    using assms by (simp add: List_bounds_ok Get_def)
  then show ?thesis by (simp add: proposalToRes_def)
qed

theorem List_no_parameters_witness:
  "proposalRepository servingEndpoint (requestFilter Map.empty) = (Slice [baseProposal], None) \<and>
   List exampleSecs servingEndpoint Map.empty =
      [Repository_Proposals (requestFilter Map.empty),
       WriteAsJSON \<lparr>Proposals = Slice [proposalToRes exampleSecs baseProposal]\<rparr>] \<and>
   ProviderID (proposalToRes exampleSecs baseProposal) = ''0xP1'' \<and>
   ServiceType (proposalToRes exampleSecs baseProposal) = ''openvpn'' \<and>
   PerBytes (Rate (PaymentMethod (proposalToRes exampleSecs baseProposal))) = 7669584 \<and>
   Metrics (proposalToRes exampleSecs baseProposal) = None"
proof -
  have a: "proposalRepository servingEndpoint (requestFilter Map.empty) = (Slice [baseProposal], None)"
    by (simp add: servingEndpoint_def)
  from a List_no_parameters [OF a, of exampleSecs baseProposal] show ?thesis
    by (simp add: baseProposal_def)
qed

section \<open>Records with the same key\<close>

text \<open>
  Claim C10. Take a metric record \<open>m\<close> of the list such that no record after it has the same
  key, whatever comes before it. Then the index holds \<open>m\<close> under that key, and every proposal
  with that key gets the connect counts of \<open>m\<close>: of several records with one key, the last
  one counts.
\<close>

theorem addProposalMetrics_last_record_wins:
  assumes "\<forall>m'\<in>set ys. metricKey m' \<noteq> metricKey m"
  shows "metricsMap (xs @ m # ys) (metricKey m) = Some m \<and>
    (\<forall>i<length ps. proposalKey (ps ! i) = metricKey m \<longrightarrow>
       elems (addProposalMetrics (Slice ps) (Slice (xs @ m # ys))) ! i =
         (ps ! i)\<lparr>Metrics := Some \<lparr>ConnectCount = m_ConnectCount m\<rparr>\<rparr>)"
  using metricsMap_last_record [OF assms, of xs]
  by (simp add: addProposalMetrics_Slice attachMetrics_def)

theorem addProposalMetrics_last_record_wins_witness:
  "metricKey (metricOf ''0xP2'' ''noop'' 9) \<noteq> metricKey (metricOf ''0xP1'' ''openvpn'' 2) \<and>
   proposalKey (dtoOf ''0xP1'' ''openvpn'') = metricKey (metricOf ''0xP1'' ''openvpn'' 2) \<and>
   elems (addProposalMetrics (Slice [dtoOf ''0xP1'' ''openvpn''])
      (Slice [metricOf ''0xP1'' ''openvpn'' 1, metricOf ''0xP1'' ''openvpn'' 2, metricOf ''0xP2'' ''noop'' 9])) ! 0
     = (dtoOf ''0xP1'' ''openvpn'')\<lparr>Metrics := Some \<lparr>ConnectCount = \<lparr>Success = 2, Fail = 0, Timeout = 0\<rparr>\<rparr>\<rparr>"
proof -
  have a: "\<forall>m'\<in>set [metricOf ''0xP2'' ''noop'' 9]. metricKey m' \<noteq> metricKey (metricOf ''0xP1'' ''openvpn'' 2)"
    by (simp add: metricKey_def metricOf_def)
  have b: "proposalKey (dtoOf ''0xP1'' ''openvpn'') = metricKey (metricOf ''0xP1'' ''openvpn'' 2)"
    by (simp add: proposalKey_def metricKey_def metricOf_def dtoOf_def proposalToRes_def)
  from addProposalMetrics_last_record_wins [OF a, of "[metricOf ''0xP1'' ''openvpn'' 1]" "[dtoOf ''0xP1'' ''openvpn'']"] b
  have "elems (addProposalMetrics (Slice [dtoOf ''0xP1'' ''openvpn''])
      (Slice [metricOf ''0xP1'' ''openvpn'' 1, metricOf ''0xP1'' ''openvpn'' 2, metricOf ''0xP2'' ''noop'' 9])) ! 0
     = (dtoOf ''0xP1'' ''openvpn'')\<lparr>Metrics := Some \<lparr>ConnectCount = m_ConnectCount (metricOf ''0xP1'' ''openvpn'' 2)\<rparr>\<rparr>"
    by simp
  with a b show ?thesis by (simp add: metricOf_def)
qed

end
